theory Spec2Isabelle
  imports Complex_Main
begin

section \<open>Data model of \<open>hpp::core::Path\<close> (include/hpp/core/path.hh)\<close>

text \<open>
  \<open>value_type\<close> is the scalar type of the library; it is modelled by the reals, so every
  statement below is about the arithmetic the code writes down, not about rounding.
  Eigen vectors (\<open>Configuration_t\<close>, \<open>vector_t\<close>) are lists of scalars, \<open>size_type\<close> is a
  signed integer, \<open>interval_t\<close> is a \<open>std::pair\<close> of scalars.
\<close>

type_synonym value_type = real
type_synonym size_type = int
type_synonym interval_t = "value_type \<times> value_type"
type_synonym Configuration_t = "value_type list"
type_synonym vector_t = "value_type list"

text \<open>
  Everything that leaves a member function other than through its return value: a failed
  \<open>assert\<close>, the \<open>hpp::Exception\<close> of \<open>HPP_THROW_EXCEPTION\<close> with its message, the
  \<open>projection_error\<close> of \<open>extract\<close>, the \<open>std::logic_error\<close> of the problem solver, and
  the violated precondition of \<open>copy (constraints)\<close>.
\<close>

datatype error =
    AssertionFailed
  | Exception string
  | ProjectionError
  | LogicError string
  | PreconditionViolated

text \<open>
  \<open>TimeParameterization\<close> (hpp/core/time-parameterization.hh) is an abstract class, known
  here through its use in path.hh only; the three virtual functions \<open>Path\<close> calls on it
  are the fields of a record, so an instance is any triple of functions.
\<close>

record TimeParameterization =
  tp_value :: "value_type \<Rightarrow> value_type"
  tp_derivative :: "value_type \<Rightarrow> value_type"
  tp_derivativeBound :: "value_type \<Rightarrow> value_type \<Rightarrow> value_type"

text \<open>
  \<open>ConstraintSet::apply (configuration)\<close> overwrites its argument and returns whether the
  projection succeeded: a function from the configuration to the flag and the configuration
  left in the buffer.
\<close>

record ConstraintSet =
  cs_apply :: "Configuration_t \<Rightarrow> bool \<times> Configuration_t"

text \<open>
  The data members of \<open>Path\<close> (the trailing underscore of the C++ names is dropped, as a
  name cannot end with one here) and its virtual functions. An output argument
  (\<open>ConfigurationOut_t\<close>, \<open>vectorOut_t\<close>) is a buffer the callee writes: the function
  takes the buffer as it stands and returns it as it leaves it. \<open>impl_derivative\<close> and
  \<open>impl_velocityBound\<close> may throw, \<open>impl_compute\<close> reports with its Boolean.
\<close>

record Path =
  timeRange :: interval_t
  paramRange :: interval_t
  outputSize :: size_type
  outputDerivativeSize :: size_type
  constraints :: "ConstraintSet option"
  timeParam :: "TimeParameterization option"
  impl_compute :: "Configuration_t \<Rightarrow> value_type \<Rightarrow> bool \<times> Configuration_t"
  impl_derivative :: "vector_t \<Rightarrow> value_type \<Rightarrow> size_type \<Rightarrow> error + vector_t"
  impl_velocityBound :: "vector_t \<Rightarrow> value_type \<Rightarrow> value_type \<Rightarrow> error + vector_t"

text \<open>The bodies \<open>Path\<close> itself gives to the two optional virtual functions.\<close>

definition Path_impl_derivative :: "vector_t \<Rightarrow> value_type \<Rightarrow> size_type \<Rightarrow> error + vector_t" where
  "Path_impl_derivative result t order = Inl (Exception ''not implemented'')"

definition Path_impl_velocityBound :: "vector_t \<Rightarrow> value_type \<Rightarrow> value_type \<Rightarrow> error + vector_t" where
  "Path_impl_velocityBound result t0 t1 = Inl (Exception ''not implemented'')"

text \<open>\<open>std::max\<close> and \<open>std::min\<close> as the standard library defines them.\<close>

definition std_max :: "value_type \<Rightarrow> value_type \<Rightarrow> value_type" where
  "std_max a b = (if a < b then b else a)"

definition std_min :: "value_type \<Rightarrow> value_type \<Rightarrow> value_type" where
  "std_min a b = (if b < a then b else a)"

text \<open>\<open>result *= s\<close> on an Eigen vector.\<close>

definition times_assign :: "vector_t \<Rightarrow> value_type \<Rightarrow> vector_t" where
  "times_assign result s = map (\<lambda>x. x * s) result"

section \<open>Member functions of \<open>Path\<close>\<close>

definition Path_paramAtTime :: "Path \<Rightarrow> value_type \<Rightarrow> value_type" where
  "Path_paramAtTime p time =
     (case timeParam p of
        Some tp \<Rightarrow> tp_value tp time
      | None \<Rightarrow> time)"

text \<open>
  \<open>configAtParam (param, success)\<close>. \<open>result0\<close> is the content of the vector
  \<open>Configuration_t result (outputSize ())\<close>, which Eigen allocates without initialising it.
  The pair returned is the configuration and the value left in \<open>success\<close>.
\<close>

definition Path_configAtParam :: "Path \<Rightarrow> Configuration_t \<Rightarrow> value_type \<Rightarrow> Configuration_t \<times> bool" where
  "Path_configAtParam p result0 param =
     (let (success, result) = impl_compute p result0 param in
      if \<not> success then (result, success)
      else (case constraints p of
              Some c \<Rightarrow> (let (success', result') = cs_apply c result in (result', success'))
            | None \<Rightarrow> (result, success)))"

text \<open>\<open>Configuration_t operator () (time, success)\<close>.\<close>

definition Path_call_success :: "Path \<Rightarrow> Configuration_t \<Rightarrow> value_type \<Rightarrow> Configuration_t \<times> bool" where
  "Path_call_success p result0 time = Path_configAtParam p result0 (Path_paramAtTime p time)"

text \<open>The deprecated \<open>Configuration_t operator () (time)\<close>.\<close>

definition Path_call_deprecated :: "Path \<Rightarrow> Configuration_t \<Rightarrow> value_type \<Rightarrow> Configuration_t" where
  "Path_call_deprecated p result0 time =
     (let (ok, result) = impl_compute p result0 (Path_paramAtTime p time) in
      case constraints p of
        Some c \<Rightarrow> snd (cs_apply c result)
      | None \<Rightarrow> result)"

text \<open>\<open>bool operator () (result, time)\<close>: the flag and the buffer as it is left.\<close>

definition Path_call_result :: "Path \<Rightarrow> Configuration_t \<Rightarrow> value_type \<Rightarrow> bool \<times> Configuration_t" where
  "Path_call_result p result time =
     (let (success, result') = impl_compute p result (Path_paramAtTime p time) in
      if \<not> success then (False, result')
      else (case constraints p of
              None \<Rightarrow> (True, result')
            | Some c \<Rightarrow> cs_apply c result'))"

text \<open>\<open>bool at (time, result)\<close>.\<close>

definition Path_at :: "Path \<Rightarrow> value_type \<Rightarrow> Configuration_t \<Rightarrow> bool \<times> Configuration_t" where
  "Path_at p time result = impl_compute p result (Path_paramAtTime p time)"

text \<open>
  \<open>derivative (result, time, order)\<close>. An \<open>assert\<close> is compiled out when \<open>NDEBUG\<close> is
  defined, so the build is an argument: \<open>ndebug\<close> is true for a build with \<open>NDEBUG\<close>.
\<close>

definition Path_derivative :: "bool \<Rightarrow> Path \<Rightarrow> vector_t \<Rightarrow> value_type \<Rightarrow> size_type \<Rightarrow> error + vector_t" where
  "Path_derivative ndebug p result time order =
     (case timeParam p of
        Some tp \<Rightarrow>
          if \<not> ndebug \<and> order \<noteq> 1 then Inl AssertionFailed
          else (case impl_derivative p result (tp_value tp time) order of
                  Inl e \<Rightarrow> Inl e
                | Inr result' \<Rightarrow> Inr (times_assign result' (tp_derivative tp time)))
      | None \<Rightarrow> impl_derivative p result time order)"

text \<open>\<open>velocityBound (result, t0, t1)\<close>.\<close>

definition Path_velocityBound :: "bool \<Rightarrow> Path \<Rightarrow> vector_t \<Rightarrow> value_type \<Rightarrow> value_type \<Rightarrow> error + vector_t" where
  "Path_velocityBound ndebug p result t0 t1 =
     (if \<not> ndebug \<and> int (length result) \<noteq> outputDerivativeSize p then Inl AssertionFailed
      else if \<not> ndebug \<and> \<not> t0 \<le> t1 then Inl AssertionFailed
      else (case impl_velocityBound p result
                   (Path_paramAtTime p (std_max t0 (fst (timeRange p))))
                   (Path_paramAtTime p (std_min t1 (snd (timeRange p)))) of
              Inl e \<Rightarrow> Inl e
            | Inr result' \<Rightarrow>
                (case timeParam p of
                   Some tp \<Rightarrow> Inr (times_assign result' (tp_derivativeBound tp t0 t1))
                 | None \<Rightarrow> Inr result')))"

text \<open>The protected setters \<open>constraints (constraint)\<close> and \<open>timeRange (timeRange)\<close>.\<close>

definition Path_set_constraints :: "Path \<Rightarrow> ConstraintSet option \<Rightarrow> Path" where
  "Path_set_constraints p constraint = p\<lparr>constraints := constraint\<rparr>"

definition Path_set_timeRange :: "Path \<Rightarrow> interval_t \<Rightarrow> Path" where
  "Path_set_timeRange p tr =
     (let p1 = p\<lparr>timeRange := tr\<rparr> in
      case timeParam p1 of
        Some tp \<Rightarrow> p1\<lparr>paramRange := (tp_value tp (fst (timeRange p1)), tp_value tp (snd (timeRange p1)))\<rparr>
      | None \<Rightarrow> p1\<lparr>paramRange := timeRange p1\<rparr>)"

text \<open>
  \<open>timeParameterization (tp, tr)\<close>; \<open>tp\<close> is a shared pointer, \<open>None\<close> when it is null.
\<close>

definition Path_timeParameterization :: "Path \<Rightarrow> TimeParameterization option \<Rightarrow> interval_t \<Rightarrow> Path" where
  "Path_timeParameterization p tp tr = Path_set_timeRange (p\<lparr>timeParam := tp\<rparr>) tr"

definition Path_length :: "Path \<Rightarrow> value_type" where
  "Path_length p = snd (timeRange p) - fst (timeRange p)"

definition Path_paramLength :: "Path \<Rightarrow> value_type" where
  "Path_paramLength p = snd (paramRange p) - fst (paramRange p)"

text \<open>
  The rule the documentation of \<open>paramRange ()\<close> gives for the stored interval:
  \<open>timeParam_ (timeRange ())\<close> if the instance has a parameterization, \<open>timeRange ()\<close>
  otherwise.
\<close>

definition paramRange_rule :: "Path \<Rightarrow> bool" where
  "paramRange_rule p =
     (paramRange p =
        (case timeParam p of
           Some tp \<Rightarrow> (tp_value tp (fst (timeRange p)), tp_value tp (snd (timeRange p)))
         | None \<Rightarrow> timeRange p))"

text \<open>
  The contracts of the collaborators a velocity bound rests on. A concrete shape's
  \<open>impl_velocityBound (result, a, b)\<close> bounds, component by component, the magnitude of
  what its \<open>impl_derivative\<close> gives at order 1 for every parameter between \<open>a\<close> and \<open>b\<close>.
  An attached parameterization is non-decreasing and its \<open>derivativeBound (t0, t1)\<close> is at
  least the magnitude of its derivative on \<open>[t0, t1]\<close>.
\<close>

definition shape_bound_sound :: "Path \<Rightarrow> bool" where
  "shape_bound_sound p =
     (\<forall>r r' a b u vb d.
        a \<le> u \<and> u \<le> b \<and> impl_velocityBound p r a b = Inr vb \<and> impl_derivative p r' u 1 = Inr d
        \<longrightarrow> list_all2 (\<lambda>x m. \<bar>x\<bar> \<le> m) d vb)"

definition timeParam_sound :: "TimeParameterization \<Rightarrow> bool" where
  "timeParam_sound tp =
     ((\<forall>s s'. s \<le> s' \<longrightarrow> tp_value tp s \<le> tp_value tp s')
      \<and> (\<forall>a b s. a \<le> s \<and> s \<le> b \<longrightarrow> \<bar>tp_derivative tp s\<bar> \<le> tp_derivativeBound tp a b))"

text \<open>
  A path whose two Boolean results are replaced: \<open>impl_compute\<close> reports \<open>f1\<close> and the
  projector, if there is one, reports \<open>f2\<close>; the configurations they write are kept.
\<close>

definition with_flags :: "(Configuration_t \<Rightarrow> value_type \<Rightarrow> bool) \<Rightarrow> (Configuration_t \<Rightarrow> bool) \<Rightarrow> Path \<Rightarrow> Path" where
  "with_flags f1 f2 p =
     p\<lparr>impl_compute := (\<lambda>r u. (f1 r u, snd (impl_compute p r u))),
       constraints := map_option (\<lambda>c. c\<lparr>cs_apply := (\<lambda>q. (f2 q, snd (cs_apply c q)))\<rparr>) (constraints p)\<rparr>"

text \<open>
  The calls that write the members of a path after construction, and a path after a
  sequence of them.
\<close>

datatype setter_call =
    SetTimeRange interval_t
  | SetTimeParameterization "TimeParameterization option" interval_t
  | SetConstraints "ConstraintSet option"

fun Path_setter :: "Path \<Rightarrow> setter_call \<Rightarrow> Path" where
  "Path_setter p (SetTimeRange tr) = Path_set_timeRange p tr"
| "Path_setter p (SetTimeParameterization tp tr) = Path_timeParameterization p tp tr"
| "Path_setter p (SetConstraints c) = Path_set_constraints p c"

section \<open>Extraction, reversal and copy with constraints\<close>

text \<open>
  Modelled from the spec: \<open>Path::extract\<close> and \<open>Path::reverse\<close> are declared in path.hh
  and defined outside the header, in code this development does not cover. The spec says:
  "\<open>extract(subInterval)\<close> gives the sub-path over \<open>[a,b]\<close>; if \<open>b < a\<close>, the result is the
  reversal of \<open>extract([b,a])\<close>", and either step fails with a projection error when an
  end configuration cannot be recomputed under the constraints. The construction of the
  forward sub-path (\<open>subpath\<close>) and the reversal (\<open>reverse\<close>) are arguments; what is
  modelled is how \<open>extract\<close> chooses between them.
\<close>

definition Path_extract ::
  "(Path \<Rightarrow> interval_t \<Rightarrow> error + Path) \<Rightarrow> (Path \<Rightarrow> error + Path) \<Rightarrow> Path \<Rightarrow> interval_t \<Rightarrow> error + Path" where
  "Path_extract subpath reverse p subInterval =
     (if snd subInterval < fst subInterval
      then (case subpath p (snd subInterval, fst subInterval) of
              Inl e \<Rightarrow> Inl e
            | Inr q \<Rightarrow> reverse q)
      else subpath p subInterval)"

text \<open>
  Modelled from the spec: \<open>copy (constraints)\<close> is pure virtual in path.hh, documented
  with the precondition that \<open>*this\<close> has no constraints; its bodies are in the concrete
  path classes, which this development does not cover. The spec: "\<open>copy(constraints)\<close> gives a new Path with
  the given constraint set; the receiver must not already own constraints (fails
  otherwise)".
\<close>

definition Path_copy_constraints :: "Path \<Rightarrow> ConstraintSet option \<Rightarrow> error + Path" where
  "Path_copy_constraints p cs =
     (if constraints p \<noteq> None then Inl PreconditionViolated
      else Inr (p\<lparr>constraints := cs\<rparr>))"

section \<open>The numerical constraints of \<open>ProblemSolver\<close>\<close>

text \<open>
  The three ways the header builds a comparison type. A \<open>ComparisonTypePtr_t\<close> and a
  \<open>DifferentiableFunctionPtr_t\<close> are shared pointers: \<open>None\<close> is the null pointer. The
  pointee of a \<open>DifferentiableFunctionPtr_t\<close> and the entries of a \<open>VectorOfTypes\<close> are type
  parameters.
\<close>

datatype 't ComparisonType =
    Equality_create
  | ComparisonType_createDefault
  | ComparisonTypes_create "'t list"

text \<open>
  The two maps of \<open>ProblemSolver\<close> that hold the named numerical constraints; the other
  members are not read or written by the functions below.
\<close>

record ('df, 't) ProblemSolver =
  NumericalConstraintMap :: "string \<rightharpoonup> 'df option"
  comparisonTypeMap :: "string \<rightharpoonup> 't ComparisonType option"

text \<open>Both maps are empty after construction.\<close>

definition ProblemSolver_new :: "('df, 't) ProblemSolver" where
  "ProblemSolver_new = \<lparr>NumericalConstraintMap = Map.empty, comparisonTypeMap = Map.empty\<rparr>"

text \<open>
  \<open>std::map::operator []\<close> on a map of shared pointers: a key that is missing is inserted
  with a null pointer. The value read and the map as it is left.
\<close>

definition map_subscript :: "('k \<rightharpoonup> 'v option) \<Rightarrow> 'k \<Rightarrow> 'v option \<times> ('k \<rightharpoonup> 'v option)" where
  "map_subscript m k =
     (case m k of
        Some v \<Rightarrow> (v, m)
      | None \<Rightarrow> (None, m(k \<mapsto> None)))"

definition ProblemSolver_addNumericalConstraint ::
  "('df, 't) ProblemSolver \<Rightarrow> string \<Rightarrow> 'df option \<Rightarrow> ('df, 't) ProblemSolver" where
  "ProblemSolver_addNumericalConstraint s name constraint =
     s\<lparr>NumericalConstraintMap := (NumericalConstraintMap s)(name \<mapsto> constraint),
       comparisonTypeMap := (comparisonTypeMap s)(name \<mapsto> Some ComparisonType_createDefault)\<rparr>"

text \<open>
  \<open>comparisonType (name, types)\<close>: what the call does (\<open>Inl\<close> the exception thrown) and
  the solver as the call leaves it.
\<close>

definition ProblemSolver_comparisonType_types ::
  "('df, 't) ProblemSolver \<Rightarrow> string \<Rightarrow> 't list \<Rightarrow> (error + unit) \<times> ('df, 't) ProblemSolver" where
  "ProblemSolver_comparisonType_types s name types =
     (let (df, m) = map_subscript (NumericalConstraintMap s) name;
          s1 = s\<lparr>NumericalConstraintMap := m\<rparr>
      in if df = None
         then (Inl (LogicError (''Numerical constraint '' @ name @ '' not defined.'')), s1)
         else (Inr (), s1\<lparr>comparisonTypeMap := (comparisonTypeMap s1)(name \<mapsto> Some (ComparisonTypes_create types))\<rparr>))"

text \<open>\<open>comparisonType (name, eq)\<close>.\<close>

definition ProblemSolver_comparisonType_eq ::
  "('df, 't) ProblemSolver \<Rightarrow> string \<Rightarrow> 't ComparisonType option \<Rightarrow> ('df, 't) ProblemSolver" where
  "ProblemSolver_comparisonType_eq s name eq = s\<lparr>comparisonTypeMap := (comparisonTypeMap s)(name \<mapsto> eq)\<rparr>"

text \<open>\<open>comparisonType (name) const\<close>.\<close>

definition ProblemSolver_comparisonType :: "('df, 't) ProblemSolver \<Rightarrow> string \<Rightarrow> 't ComparisonType option" where
  "ProblemSolver_comparisonType s name =
     (case comparisonTypeMap s name of
        None \<Rightarrow> Some Equality_create
      | Some c \<Rightarrow> c)"

text \<open>\<open>numericalConstraint (name)\<close>: the pointer returned and the solver as it is left.\<close>

definition ProblemSolver_numericalConstraint ::
  "('df, 't) ProblemSolver \<Rightarrow> string \<Rightarrow> 'df option \<times> ('df, 't) ProblemSolver" where
  "ProblemSolver_numericalConstraint s name =
     (let (df, m) = map_subscript (NumericalConstraintMap s) name
      in (df, s\<lparr>NumericalConstraintMap := m\<rparr>))"

text \<open>
  A history of calls on a solver: the calls above, and the solver they leave behind (a
  call that throws leaves what it wrote before throwing). The deprecated
  \<open>addConstraintToConfigProjector\<close>, which goes on into a function defined outside the
  header, is not among them; its inline part reads \<open>NumericalConstraintMap_\<close> and writes
  no entry of it.
\<close>

datatype ('df, 't) solver_call =
    AddNumericalConstraint string "'df option"
  | SetComparisonTypes string "'t list"
  | SetComparisonType string "'t ComparisonType option"
  | GetComparisonType string
  | GetNumericalConstraint string

fun solver_step :: "('df, 't) ProblemSolver \<Rightarrow> ('df, 't) solver_call \<Rightarrow> ('df, 't) ProblemSolver" where
  "solver_step s (AddNumericalConstraint name constraint) = ProblemSolver_addNumericalConstraint s name constraint"
| "solver_step s (SetComparisonTypes name types) = snd (ProblemSolver_comparisonType_types s name types)"
| "solver_step s (SetComparisonType name eq) = ProblemSolver_comparisonType_eq s name eq"
| "solver_step s (GetComparisonType name) = s"
| "solver_step s (GetNumericalConstraint name) = snd (ProblemSolver_numericalConstraint s name)"

definition solver_after :: "('df, 't) solver_call list \<Rightarrow> ('df, 't) ProblemSolver" where
  "solver_after calls = foldl solver_step ProblemSolver_new calls"

fun adds :: "string \<Rightarrow> ('df, 't) solver_call \<Rightarrow> bool" where
  "adds name (AddNumericalConstraint name' constraint) = (name' = name)"
| "adds name call = False"

text \<open>
  A name the setter of comparison types takes as not defined: no entry, or an entry with a
  null pointer. And the calls that store a comparison type under a name without looking
  the constraint up.
\<close>

definition not_defined :: "('df, 't) ProblemSolver \<Rightarrow> string \<Rightarrow> bool" where
  "not_defined s name = (case NumericalConstraintMap s name of None \<Rightarrow> True | Some df \<Rightarrow> df = None)"

fun sets_comparison :: "string \<Rightarrow> ('df, 't) solver_call \<Rightarrow> bool" where
  "sets_comparison name (AddNumericalConstraint name' constraint) = (name' = name)"
| "sets_comparison name (SetComparisonType name' eq) = (name' = name)"
| "sets_comparison name call = False"

section \<open>\<open>TimesFrameFunction\<close> (src/times-frame-function.hh)\<close>

text \<open>
  Fixed-size vectors and matrices of Eigen: a \<open>Vector3\<close> is a triple, a \<open>Matrix3\<close> the triple
  of its rows; a dynamic matrix is its coefficient function. The operations are the ones
  the function uses, with Eigen's meaning.
\<close>

type_synonym vec3 = "value_type \<times> value_type \<times> value_type"
type_synonym matrix3 = "vec3 \<times> vec3 \<times> vec3"
type_synonym matrix_t = "nat \<Rightarrow> nat \<Rightarrow> value_type"

text \<open>
  \<open>Eigen::Quaternion\<close>, written as its constructor takes the coefficients: \<open>w\<close> first, then
  \<open>x\<close>, \<open>y\<close>, \<open>z\<close>.
\<close>

datatype Quaternion_t = Quaternion value_type value_type value_type value_type

fun cross :: "vec3 \<Rightarrow> vec3 \<Rightarrow> vec3" where
  "cross (ax, ay, az) (bx, by, bz) = (ay * bz - az * by, az * bx - ax * bz, ax * by - ay * bx)"

fun vec3_add :: "vec3 \<Rightarrow> vec3 \<Rightarrow> vec3" where
  "vec3_add (ax, ay, az) (bx, by, bz) = (ax + bx, ay + by, az + bz)"

fun vec3_scale :: "value_type \<Rightarrow> vec3 \<Rightarrow> vec3" where
  "vec3_scale s (ax, ay, az) = (s * ax, s * ay, s * az)"

fun vec3_dot :: "vec3 \<Rightarrow> vec3 \<Rightarrow> value_type" where
  "vec3_dot (ax, ay, az) (bx, by, bz) = ax * bx + ay * by + az * bz"

fun vec3_coeffs :: "vec3 \<Rightarrow> vector_t" where
  "vec3_coeffs (ax, ay, az) = [ax, ay, az]"

fun vec3_coeff :: "vec3 \<Rightarrow> nat \<Rightarrow> value_type" where
  "vec3_coeff (ax, ay, az) i = (if i = 0 then ax else if i = 1 then ay else az)"

fun matrix3_times_vec :: "matrix3 \<Rightarrow> vec3 \<Rightarrow> vec3" where
  "matrix3_times_vec (r0, r1, r2) v = (vec3_dot r0 v, vec3_dot r1 v, vec3_dot r2 v)"

fun matrix3_transpose :: "matrix3 \<Rightarrow> matrix3" where
  "matrix3_transpose ((a, b, c), (d, e, f), (g, h, i)) = ((a, d, g), (b, e, h), (c, f, i))"

fun matrix3_times :: "matrix3 \<Rightarrow> matrix3 \<Rightarrow> matrix3" where
  "matrix3_times (r0, r1, r2) m =
     (matrix3_times_vec (matrix3_transpose m) r0,
      matrix3_times_vec (matrix3_transpose m) r1,
      matrix3_times_vec (matrix3_transpose m) r2)"

fun matrix3_uminus :: "matrix3 \<Rightarrow> matrix3" where
  "matrix3_uminus (r0, r1, r2) = (vec3_scale (- 1) r0, vec3_scale (- 1) r1, vec3_scale (- 1) r2)"

fun matrix3_coeff :: "matrix3 \<Rightarrow> nat \<Rightarrow> nat \<Rightarrow> value_type" where
  "matrix3_coeff (r0, r1, r2) i j = vec3_coeff (if i = 0 then r0 else if i = 1 then r1 else r2) j"

definition matrix3_Zero :: matrix3 where
  "matrix3_Zero = ((0, 0, 0), (0, 0, 0), (0, 0, 0))"

text \<open>\<open>se3::skew\<close>: the matrix of the cross product with a vector.\<close>

fun skew :: "vec3 \<Rightarrow> matrix3" where
  "skew (x, y, z) = ((0, - z, y), (z, 0, - x), (- y, x, 0))"

text \<open>
  The members of \<open>Eigen::Quaternion\<close> the function calls. \<open>coeffs ()\<close> stores \<open>x\<close>, \<open>y\<close>, \<open>z\<close>,
  \<open>w\<close> in this order, and a \<open>QuaternionMap_t\<close> reads four scalars in the same order.
  \<open>_transformVector\<close> is Eigen's: with \<open>uv\<close> twice the cross product of the vector part and
  \<open>v\<close>, the result is \<open>v + w * uv + vec \<times> uv\<close>. The product is Eigen's quaternion product.
\<close>

fun Quaternion_vec :: "Quaternion_t \<Rightarrow> vec3" where
  "Quaternion_vec (Quaternion w x y z) = (x, y, z)"

fun Quaternion_w :: "Quaternion_t \<Rightarrow> value_type" where
  "Quaternion_w (Quaternion w x y z) = w"

fun Quaternion_coeffs :: "Quaternion_t \<Rightarrow> vector_t" where
  "Quaternion_coeffs (Quaternion w x y z) = [x, y, z, w]"

fun Quaternion_squaredNorm :: "Quaternion_t \<Rightarrow> value_type" where
  "Quaternion_squaredNorm (Quaternion w x y z) = x * x + y * y + z * z + w * w"

definition Quaternion_transformVector :: "Quaternion_t \<Rightarrow> vec3 \<Rightarrow> vec3" where
  "Quaternion_transformVector q v =
     (let uv = cross (Quaternion_vec q) v;
          uv = vec3_add uv uv
      in vec3_add (vec3_add v (vec3_scale (Quaternion_w q) uv)) (cross (Quaternion_vec q) uv))"

fun Quaternion_times :: "Quaternion_t \<Rightarrow> Quaternion_t \<Rightarrow> Quaternion_t" where
  "Quaternion_times (Quaternion aw ax ay az) (Quaternion bw bx by bz) =
     Quaternion (aw * bw - ax * bx - ay * by - az * bz)
                (aw * bx + ax * bw + ay * bz - az * by)
                (aw * by + ay * bw + az * bx - ax * bz)
                (aw * bz + az * bw + ax * by - ay * bx)"

text \<open>
  \<open>Transform3f\<close> (\<open>se3::SE3\<close>): a rotation matrix and a translation. As a rigid transform it
  sends a point \<open>v\<close> to \<open>R v + t\<close>.
\<close>

record Transform3f =
  rotation :: matrix3
  translation :: vec3

definition Transform3f_act :: "Transform3f \<Rightarrow> vec3 \<Rightarrow> vec3" where
  "Transform3f_act M v = vec3_add (matrix3_times_vec (rotation M) v) (translation M)"

text \<open>
  \<open>squaredNorm ()\<close> of a vector, and the writes \<open>y.head<3> () = h\<close> and
  \<open>y.tail<4> () = t\<close> into a vector.
\<close>

definition squaredNorm :: "vector_t \<Rightarrow> value_type" where
  "squaredNorm v = sum_list (map (\<lambda>c. c * c) v)"

definition set_head :: "vector_t \<Rightarrow> vector_t \<Rightarrow> vector_t" where
  "set_head y h = h @ drop (length h) y"

definition set_tail :: "vector_t \<Rightarrow> vector_t \<Rightarrow> vector_t" where
  "set_tail y t = take (length y - length t) y @ t"

text \<open>
  What the function takes from the libraries around it, as parameters: \<open>se3::log6\<close> of a
  transform as a vector, the conversion of a rotation matrix into an \<open>Eigen::Quaternion\<close>,
  the sum of a Lie-group element of \<open>SE(3)\<close> with a tangent vector
  (\<open>LiegroupConstElementRef + vector\<close>) and the difference of two elements
  (\<open>LiegroupElement - LiegroupElement\<close>).
\<close>

record se3_library =
  lib_log6 :: "Transform3f \<Rightarrow> vector_t"
  lib_Quaternion :: "matrix3 \<Rightarrow> Quaternion_t"
  lib_plus :: "vector_t \<Rightarrow> vector_t \<Rightarrow> vector_t"
  lib_minus :: "vector_t \<Rightarrow> vector_t \<Rightarrow> vector_t"

text \<open>The members of \<open>TimesFrameFunction\<close> and its constructor.\<close>

record TimesFrameFunction =
  oMi :: Transform3f
  logM :: vector_t
  oQi :: Quaternion_t

definition TimesFrameFunction_new :: "se3_library \<Rightarrow> Transform3f \<Rightarrow> TimesFrameFunction" where
  "TimesFrameFunction_new lib M =
     \<lparr>oMi = M, logM = lib_log6 lib M, oQi = lib_Quaternion lib (rotation M)\<rparr>"

text \<open>
  The rigid transform a configuration of \<open>SE(3)\<close> stands for: three coordinates of
  translation, then the four coefficients of a quaternion. It sends \<open>v\<close> to the rotated \<open>v\<close>
  plus the translation.
\<close>

definition SE3_act :: "vector_t \<Rightarrow> vec3 \<Rightarrow> vec3" where
  "SE3_act x v =
     (case x of
        [x0, x1, x2, x3, x4, x5, x6] \<Rightarrow>
          vec3_add (Quaternion_transformVector (Quaternion x6 x3 x4 x5) v) (x0, x1, x2)
      | _ \<Rightarrow> v)"

text \<open>
  \<open>impl_compute (y, x)\<close>: \<open>y\<close> is the vector of the output element as the call finds it;
  the result is that vector as the call leaves it, or the failed assertion. The function
  is declared with input size 7; the fixed-size segments of a vector of another size are
  stopped by Eigen's own assertions.
\<close>

definition TimesFrameFunction_impl_compute ::
  "bool \<Rightarrow> se3_library \<Rightarrow> TimesFrameFunction \<Rightarrow> vector_t \<Rightarrow> vector_t \<Rightarrow> error + vector_t" where
  "TimesFrameFunction_impl_compute ndebug lib f y x =
     (case x of
        [x0, x1, x2, x3, x4, x5, x6] \<Rightarrow>
          (let iQ = Quaternion x6 x3 x4 x5;
               y' = set_head y (vec3_coeffs (vec3_add (Quaternion_transformVector iQ (translation (oMi f))) (x0, x1, x2)));
               y'' = set_tail y' (Quaternion_coeffs (Quaternion_times iQ (oQi f)));
               y1 = lib_plus lib x (logM f)
           in if \<not> ndebug \<and> \<not> squaredNorm (lib_minus lib y'' y1) < 1 / 10 ^ 12
              then Inl AssertionFailed
              else Inr y'')
      | _ \<Rightarrow> Inl AssertionFailed)"

text \<open>
  \<open>impl_jacobian (J, x)\<close> on the 6 by 6 matrix the function is declared with: the four
  corner blocks are written in the order of the source; the configuration is not read.
\<close>

definition set_block3 :: "matrix_t \<Rightarrow> nat \<Rightarrow> nat \<Rightarrow> matrix3 \<Rightarrow> matrix_t" where
  "set_block3 J r c B =
     (\<lambda>i j. if r \<le> i \<and> i < r + 3 \<and> c \<le> j \<and> j < c + 3 then matrix3_coeff B (i - r) (j - c) else J i j)"

definition TimesFrameFunction_impl_jacobian :: "TimesFrameFunction \<Rightarrow> matrix_t \<Rightarrow> vector_t \<Rightarrow> matrix_t" where
  "TimesFrameFunction_impl_jacobian f J x =
     (let J1 = set_block3 J 0 0 (matrix3_transpose (rotation (oMi f)));
          J2 = set_block3 J1 0 3
                 (matrix3_times (matrix3_uminus (matrix3_transpose (rotation (oMi f)))) (skew (translation (oMi f))));
          J3 = set_block3 J2 3 0 matrix3_Zero
      in set_block3 J3 3 3 (matrix3_transpose (rotation (oMi f))))"

text \<open>
  The contracts of the library parameters. A quaternion represents a rotation matrix when
  it is a unit quaternion and transforms vectors as the matrix does. The sum of \<open>x\<close> with
  \<open>log6 (M)\<close> is a configuration that stands for the transform of \<open>x\<close> after that of \<open>M\<close>.
  The difference of two configurations that stand for the same transform is the zero
  vector.
\<close>

definition Quaternion_represents :: "Quaternion_t \<Rightarrow> matrix3 \<Rightarrow> bool" where
  "Quaternion_represents q R =
     (Quaternion_squaredNorm q = 1 \<and> (\<forall>v. Quaternion_transformVector q v = matrix3_times_vec R v))"

definition plus_log_is_right_multiplication :: "se3_library \<Rightarrow> Transform3f \<Rightarrow> vector_t \<Rightarrow> bool" where
  "plus_log_is_right_multiplication lib M x =
     (length (lib_plus lib x (lib_log6 lib M)) = 7
      \<and> (\<forall>v. SE3_act (lib_plus lib x (lib_log6 lib M)) v = SE3_act x (Transform3f_act M v)))"

definition minus_of_equal_is_zero :: "se3_library \<Rightarrow> bool" where
  "minus_of_equal_is_zero lib =
     (\<forall>a b. length a = 7 \<and> length b = 7 \<and> (\<forall>v. SE3_act a v = SE3_act b v)
        \<longrightarrow> lib_minus lib a b = [0, 0, 0, 0, 0, 0])"

section \<open>Example paths\<close>

text \<open>
  The parabola \<open>u \<mapsto> u\<^sup>2\<close> on \<open>[0, 1]\<close>, one degree of freedom: derivative \<open>2 u\<close>, second
  derivative \<open>2\<close>, and the larger of \<open>|2 a|\<close> and \<open>|2 b|\<close> as velocity bound on \<open>[a, b]\<close>.
\<close>

definition parabola :: Path where
  "parabola =
     \<lparr>timeRange = (0, 1), paramRange = (0, 1), outputSize = 1, outputDerivativeSize = 1,
      constraints = None, timeParam = None,
      impl_compute = (\<lambda>r u. (True, [u * u])),
      impl_derivative = (\<lambda>r u order. if order = 1 then Inr [2 * u] else if order = 2 then Inr [2] else Inr [0]),
      impl_velocityBound = (\<lambda>r a b. Inr [max \<bar>2 * a\<bar> \<bar>2 * b\<bar>])\<rparr>"

text \<open>The parameterization \<open>t \<mapsto> 2 t\<close>, and the parabola run at double speed on \<open>[0, 1]\<close>.\<close>

definition tp_double :: TimeParameterization where
  "tp_double = \<lparr>tp_value = (\<lambda>t. 2 * t), tp_derivative = (\<lambda>t. 2), tp_derivativeBound = (\<lambda>t0 t1. 2)\<rparr>"

definition parabola_fast :: Path where
  "parabola_fast = Path_timeParameterization parabola (Some tp_double) (0, 1)"

text \<open>
  A projector that gives up and leaves the configuration shifted by one, a projector that
  clips every coordinate at one, and a shape whose evaluation fails without writing.
\<close>

definition cs_diverge :: ConstraintSet where
  "cs_diverge = \<lparr>cs_apply = (\<lambda>q. (False, map (\<lambda>x. x + 1) q))\<rparr>"

definition cs_clip :: ConstraintSet where
  "cs_clip = \<lparr>cs_apply = (\<lambda>q. (True, map (\<lambda>x. min x 1) q))\<rparr>"

definition broken_shape :: Path where
  "broken_shape = parabola\<lparr>impl_compute := (\<lambda>r u. (False, r))\<rparr>"

text \<open>
  A forward sub-path that restricts the interval of definition, and a reversal that
  evaluates the shape at the mirrored parameter.
\<close>

definition subpath_window :: "Path \<Rightarrow> interval_t \<Rightarrow> error + Path" where
  "subpath_window p tr = Inr (Path_set_timeRange p tr)"

definition reverse_flip :: "Path \<Rightarrow> error + Path" where
  "reverse_flip p =
     Inr (p\<lparr>impl_compute := (\<lambda>r u. impl_compute p r (fst (timeRange p) + snd (timeRange p) - u))\<rparr>)"

text \<open>
  A solver history: one constraint is added under the name gaze; the name grasp is looked
  up and given a comparison type, but never added.
\<close>

definition history :: "(nat, nat) solver_call list" where
  "history =
     [AddNumericalConstraint ''gaze'' (Some 7), GetNumericalConstraint ''grasp'',
      SetComparisonTypes ''gaze'' [3, 4],
      SetComparisonType ''grasp'' (Some ComparisonType_createDefault)]"

text \<open>
  A library for transforms without rotation: the logarithm of a translation is the
  translation, the sum moves a configuration along its own axes, and the difference
  compares translations. And the translation by one along the first axis.
\<close>

definition shift_library :: se3_library where
  "shift_library =
     \<lparr>lib_log6 = (\<lambda>M. vec3_coeffs (translation M) @ [0, 0, 0]),
      lib_Quaternion = (\<lambda>R. Quaternion 1 0 0 0),
      lib_plus = (\<lambda>x u.
        case x of
          [x0, x1, x2, x3, x4, x5, x6] \<Rightarrow>
            (case u of
               [a, b, c, d, e, g] \<Rightarrow>
                 vec3_coeffs (vec3_add (Quaternion_transformVector (Quaternion x6 x3 x4 x5) (a, b, c)) (x0, x1, x2))
                 @ [x3, x4, x5, x6]
             | _ \<Rightarrow> x)
        | _ \<Rightarrow> x),
      lib_minus = (\<lambda>a b.
        case a of
          [a0, a1, a2, a3, a4, a5, a6] \<Rightarrow>
            (case b of
               [b0, b1, b2, b3, b4, b5, b6] \<Rightarrow> [a0 - b0, a1 - b1, a2 - b2, 0, 0, 0]
             | _ \<Rightarrow> [0, 0, 0, 0, 0, 0])
        | _ \<Rightarrow> [0, 0, 0, 0, 0, 0])\<rparr>"

definition shift_x :: Transform3f where
  "shift_x = \<lparr>rotation = ((1, 0, 0), (0, 1, 0), (0, 0, 1)), translation = (1, 0, 0)\<rparr>"

section \<open>The parameter range follows the time range\<close>

lemma set_timeRange_rule: "paramRange_rule (Path_set_timeRange p tr)"
  by (simp add: paramRange_rule_def Path_set_timeRange_def Let_def split: option.split)

lemma set_constraints_rule: "paramRange_rule (Path_set_constraints p c) = paramRange_rule p"
  by (simp add: paramRange_rule_def Path_set_constraints_def split: option.split)

lemma setter_rule: "paramRange_rule p \<Longrightarrow> paramRange_rule (Path_setter p call)"
  by (cases call)
    (simp_all add: set_timeRange_rule set_constraints_rule Path_timeParameterization_def)

lemma setters_rule: "paramRange_rule p \<Longrightarrow> paramRange_rule (foldl Path_setter p calls)"
  by (induction calls arbitrary: p) (simp_all add: setter_rule)

text \<open>
  C4. The setter \<open>timeRange (tr)\<close> stores \<open>tr\<close> and leaves the path with
  \<open>paramRange = [tp.value (tr.first), tp.value (tr.second)]\<close> when a parameterization
  \<open>tp\<close> is attached and \<open>paramRange = tr\<close> otherwise, whatever the path held before;
  \<open>timeParameterization (tp, tr)\<close> attaches \<open>tp\<close>, resets the time range to \<open>tr\<close> and
  recomputes the parameter range from the new parameterization. The only other setter of
  the class, \<open>constraints (c)\<close>, touches none of the three members. So a path for which
  the rule holds keeps it through every sequence of these calls.
\<close>

theorem paramRange_recomputed:
  "paramRange_rule (Path_set_timeRange p tr)
   \<and> timeRange (Path_set_timeRange p tr) = tr
   \<and> timeParam (Path_set_timeRange p tr) = timeParam p
   \<and> paramRange_rule (Path_timeParameterization p tp tr)
   \<and> timeRange (Path_timeParameterization p tp tr) = tr
   \<and> timeParam (Path_timeParameterization p tp tr) = tp
   \<and> paramRange (Path_timeParameterization p tp tr) =
       (case tp of Some f \<Rightarrow> (tp_value f (fst tr), tp_value f (snd tr)) | None \<Rightarrow> tr)
   \<and> paramRange_rule (Path_set_constraints p c) = paramRange_rule p
   \<and> (paramRange_rule p \<longrightarrow> paramRange_rule (foldl Path_setter p calls))"
  by (simp add: setters_rule)
    (simp add: paramRange_rule_def Path_set_timeRange_def Path_timeParameterization_def
      Path_set_constraints_def Let_def split: option.split)

theorem paramRange_recomputed_witness:
  "paramRange_rule parabola
   \<and> paramRange_rule
        (foldl Path_setter parabola
           [SetConstraints (Some cs_clip), SetTimeParameterization (Some tp_double) (0, 1 / 2),
            SetTimeRange (1 / 4, 1)])
   \<and> paramRange
        (foldl Path_setter parabola
           [SetConstraints (Some cs_clip), SetTimeParameterization (Some tp_double) (0, 1 / 2),
            SetTimeRange (1 / 4, 1)]) = (1 / 2, 2)"
  using paramRange_recomputed [of parabola "(0, 1)" None None
      "[SetConstraints (Some cs_clip), SetTimeParameterization (Some tp_double) (0, 1 / 2),
        SetTimeRange (1 / 4, 1)]"]
  by (simp add: paramRange_rule_def parabola_def tp_double_def Path_set_constraints_def
      Path_timeParameterization_def Path_set_timeRange_def)

section \<open>Evaluation helpers on the example paths\<close>

lemma parabola_fields:
  "timeParam parabola = None" "constraints parabola = None" "timeRange parabola = (0, 1)"
  "outputDerivativeSize parabola = 1"
  "impl_derivative parabola r u order = (if order = 1 then Inr [2 * u] else if order = 2 then Inr [2] else Inr [0])"
  "impl_velocityBound parabola r a b = Inr [max \<bar>2 * a\<bar> \<bar>2 * b\<bar>]"
  "impl_compute parabola r u = (True, [u * u])"
  by (simp_all add: parabola_def)

lemma parabola_fast_fields:
  "timeParam parabola_fast = Some tp_double" "constraints parabola_fast = None"
  "timeRange parabola_fast = (0, 1)" "paramRange parabola_fast = (0, 2)"
  "outputDerivativeSize parabola_fast = 1"
  "impl_derivative parabola_fast = impl_derivative parabola"
  "impl_velocityBound parabola_fast = impl_velocityBound parabola"
  "impl_compute parabola_fast = impl_compute parabola"
  by (simp_all add: parabola_fast_def Path_timeParameterization_def Path_set_timeRange_def
      parabola_def tp_double_def)

lemma tp_double_fields:
  "tp_value tp_double t = 2 * t" "tp_derivative tp_double t = 2" "tp_derivativeBound tp_double a b = 2"
  by (simp_all add: tp_double_def)

section \<open>Derivative through a time parameterization\<close>

text \<open>
  C2. With a parameterization \<open>tp\<close> attached, \<open>derivative (result, t, 1)\<close> is what the
  concrete shape's \<open>impl_derivative\<close> writes at the parameter \<open>tp.value (t)\<close>, every
  component multiplied by \<open>tp.derivative (t)\<close> (an exception of the shape passes through);
  any other order fails the assertion \<open>order == 1\<close> (in a build that keeps assertions).
  Without a parameterization, \<open>derivative\<close> is the shape's \<open>impl_derivative\<close> at the same
  time and order.
\<close>

theorem derivative_chain_rule:
  "(timeParam p = Some tp \<longrightarrow>
      Path_derivative ndebug p result t 1 =
        (case impl_derivative p result (tp_value tp t) 1 of
           Inl e \<Rightarrow> Inl e
         | Inr d \<Rightarrow> Inr (map (\<lambda>x. x * tp_derivative tp t) d)))
   \<and> (timeParam p = Some tp \<and> order \<noteq> 1 \<longrightarrow>
      Path_derivative False p result t order = Inl AssertionFailed)
   \<and> (timeParam p = None \<longrightarrow>
      Path_derivative ndebug p result t order = impl_derivative p result t order)"
  by (simp add: Path_derivative_def times_assign_def split: sum.split)

theorem derivative_chain_rule_witness:
  "timeParam parabola_fast = Some tp_double
   \<and> Path_derivative False parabola_fast [0] (1 / 4) 1 = Inr [2]
   \<and> (2 :: size_type) \<noteq> 1
   \<and> Path_derivative False parabola_fast [0] (1 / 4) 2 = Inl AssertionFailed
   \<and> timeParam parabola = None
   \<and> Path_derivative False parabola [0] (1 / 4) 2 = Inr [2]"
  using derivative_chain_rule [of parabola_fast tp_double False "[0]" "1 / 4" 2]
    derivative_chain_rule [of parabola tp_double False "[0]" "1 / 4" 2]
  by (simp add: parabola_fast_fields parabola_fields tp_double_fields)

section \<open>Evaluation with a success flag\<close>

text \<open>
  C3, as the code has it. \<open>operator () (time, success)\<close> runs the shape's
  \<open>impl_compute\<close> at the parameter \<open>paramAtTime (time)\<close>. If that reports failure, the flag
  is false and the buffer is returned as \<open>impl_compute\<close> left it: the projector is not
  applied. Otherwise the projector, if one is attached, is applied to the raw
  configuration and the flag is its result; with no projector the flag is true and the
  raw configuration is returned. So the flag is true exactly when the raw computation
  succeeded and the projector, if any, converged.
\<close>

theorem call_success_flag:
  "(\<not> fst (impl_compute p result0 (Path_paramAtTime p time)) \<longrightarrow>
      Path_call_success p result0 time = (snd (impl_compute p result0 (Path_paramAtTime p time)), False))
   \<and> (fst (impl_compute p result0 (Path_paramAtTime p time)) \<and> constraints p = None \<longrightarrow>
      Path_call_success p result0 time = (snd (impl_compute p result0 (Path_paramAtTime p time)), True))
   \<and> (fst (impl_compute p result0 (Path_paramAtTime p time)) \<and> constraints p = Some c \<longrightarrow>
      Path_call_success p result0 time =
        (snd (cs_apply c (snd (impl_compute p result0 (Path_paramAtTime p time)))),
         fst (cs_apply c (snd (impl_compute p result0 (Path_paramAtTime p time))))))
   \<and> snd (Path_call_success p result0 time) =
       (fst (impl_compute p result0 (Path_paramAtTime p time))
        \<and> (case constraints p of
              None \<Rightarrow> True
            | Some c' \<Rightarrow> fst (cs_apply c' (snd (impl_compute p result0 (Path_paramAtTime p time))))))"
  by (simp add: Path_call_success_def Path_configAtParam_def split: prod.split option.split)

theorem call_success_flag_witness:
  "\<not> fst (impl_compute broken_shape [7] (Path_paramAtTime broken_shape 3))
   \<and> Path_call_success broken_shape [7] 3 = ([7], False)
   \<and> fst (impl_compute parabola [7] (Path_paramAtTime parabola 3))
   \<and> constraints parabola = None
   \<and> Path_call_success parabola [7] 3 = ([9], True)
   \<and> constraints (Path_set_constraints parabola (Some cs_diverge)) = Some cs_diverge
   \<and> Path_call_success (Path_set_constraints parabola (Some cs_diverge)) [7] 3 = ([10], False)"
  using call_success_flag [of broken_shape "[7]" 3 cs_diverge]
    call_success_flag [of parabola "[7]" 3 cs_diverge]
    call_success_flag [of "Path_set_constraints parabola (Some cs_diverge)" "[7]" 3 cs_diverge]
  by (simp add: broken_shape_def parabola_def Path_paramAtTime_def Path_set_constraints_def
      cs_diverge_def)

text \<open>
  The flag is false although no projector is attached, and it is false with a projector
  attached that converges on the very buffer that is returned: the raw computation
  failed, and the projector was never run.
\<close>

theorem call_success_flag_counterexample:
  "constraints broken_shape = None
   \<and> snd (Path_call_success broken_shape [7] 3) = False
   \<and> fst (cs_apply cs_clip (fst (Path_call_success (Path_set_constraints broken_shape (Some cs_clip)) [7] 3))) = True
   \<and> Path_call_success (Path_set_constraints broken_shape (Some cs_clip)) [7] 3 = ([7], False)"
  by (simp add: Path_call_success_def Path_configAtParam_def broken_shape_def parabola_def
      Path_paramAtTime_def Path_set_constraints_def cs_clip_def)

text \<open>
  The sibling \<open>bool operator () (result, time)\<close> takes the same two exits: its Boolean
  and its buffer are the flag and the configuration above when it starts from the same
  buffer.
\<close>

lemma call_result_agrees:
  "Path_call_result p result0 time =
     (snd (Path_call_success p result0 time), fst (Path_call_success p result0 time))"
  by (simp add: Path_call_result_def Path_call_success_def Path_configAtParam_def
      split: prod.split option.split)

section \<open>The deprecated evaluation operator\<close>

text \<open>
  C9. The deprecated \<open>operator () (time)\<close> returns the buffer \<open>impl_compute\<close> wrote, passed
  through the projector when one is attached, and nothing else: whatever the two
  Booleans are, the configuration returned is the same, so the caller cannot tell a
  failed projection (or a failed raw computation) from a successful one.
\<close>

theorem call_deprecated_discards_flags:
  "Path_call_deprecated (with_flags f1 f2 p) result0 time = Path_call_deprecated p result0 time
   \<and> Path_call_deprecated p result0 time =
       (case constraints p of
          None \<Rightarrow> snd (impl_compute p result0 (Path_paramAtTime p time))
        | Some c \<Rightarrow> snd (cs_apply c (snd (impl_compute p result0 (Path_paramAtTime p time)))))"
  by (simp add: Path_call_deprecated_def with_flags_def Path_paramAtTime_def
      split: prod.split option.split)

lemma call_deprecated_example:
  "Path_call_deprecated (Path_set_constraints parabola (Some cs_diverge)) [7] 3 = [10]
   \<and> snd (Path_call_success (Path_set_constraints parabola (Some cs_diverge)) [7] 3) = False
   \<and> Path_call_deprecated (Path_set_constraints broken_shape (Some cs_clip)) [7] 3 = [1]
   \<and> Path_call_success (Path_set_constraints broken_shape (Some cs_clip)) [7] 3 = ([7], False)"
  by (simp add: Path_call_deprecated_def Path_call_success_def Path_configAtParam_def
      broken_shape_def parabola_def Path_paramAtTime_def Path_set_constraints_def
      cs_clip_def cs_diverge_def)

section \<open>Velocity bounds\<close>

lemma std_max_eq: "std_max a b = max a b"
  by (simp add: std_max_def max_def)

lemma std_min_eq: "std_min a b = min a b"
  by (simp add: std_min_def min_def)

lemma velocityBound_unfolded:
  "Path_velocityBound ndebug p result t0 t1 = Inr vb \<Longrightarrow>
     \<exists>b. impl_velocityBound p result
            (Path_paramAtTime p (max t0 (fst (timeRange p))))
            (Path_paramAtTime p (min t1 (snd (timeRange p)))) = Inr b
        \<and> vb = (case timeParam p of None \<Rightarrow> b | Some tp \<Rightarrow> map (\<lambda>x. x * tp_derivativeBound tp t0 t1) b)"
  by (auto simp: Path_velocityBound_def std_max_eq std_min_eq times_assign_def
      split: if_splits sum.splits option.splits)

lemma derivative_unfolded:
  "Path_derivative ndebug p result t 1 = Inr d \<Longrightarrow>
     \<exists>d0. impl_derivative p result (Path_paramAtTime p t) 1 = Inr d0
        \<and> d = (case timeParam p of None \<Rightarrow> d0 | Some tp \<Rightarrow> map (\<lambda>x. x * tp_derivative tp t) d0)"
  by (auto simp: Path_derivative_def Path_paramAtTime_def times_assign_def
      split: if_splits sum.splits option.splits)

lemma scaled_bound:
  assumes "list_all2 (\<lambda>x m. \<bar>x\<bar> \<le> m) d0 b" and "\<bar>dv\<bar> \<le> (db :: real)"
  shows "list_all2 (\<lambda>x m. \<bar>x\<bar> \<le> m) (map (\<lambda>x. x * dv) d0) (map (\<lambda>x. x * db) b)"
proof -
  have "\<bar>x * dv\<bar> \<le> m * db" if "\<bar>x\<bar> \<le> m" for x m :: real
    using that assms(2) by (simp add: abs_mult mult_mono)
  then show ?thesis
    using assms(1) by (simp add: list_all2_map1 list_all2_map2 list_all2_mono)
qed

lemma velocityBound_covers_derivative:
  assumes shape: "shape_bound_sound p"
    and tps: "\<forall>tp. timeParam p = Some tp \<longrightarrow> timeParam_sound tp"
    and t: "t0 \<le> t" "t \<le> t1" "fst (timeRange p) \<le> t" "t \<le> snd (timeRange p)"
    and vb: "Path_velocityBound ndebug p result t0 t1 = Inr vb"
    and d: "Path_derivative ndebug p result' t 1 = Inr d"
  shows "list_all2 (\<lambda>x m. \<bar>x\<bar> \<le> m) d vb"
proof -
  let ?a = "max t0 (fst (timeRange p))" and ?b = "min t1 (snd (timeRange p))"
  from velocityBound_unfolded [OF vb] obtain b where
    b: "impl_velocityBound p result (Path_paramAtTime p ?a) (Path_paramAtTime p ?b) = Inr b"
    and vb_eq: "vb = (case timeParam p of None \<Rightarrow> b | Some tp \<Rightarrow> map (\<lambda>x. x * tp_derivativeBound tp t0 t1) b)"
    by blast
  from derivative_unfolded [OF d] obtain d0 where
    d0: "impl_derivative p result' (Path_paramAtTime p t) 1 = Inr d0"
    and d_eq: "d = (case timeParam p of None \<Rightarrow> d0 | Some tp \<Rightarrow> map (\<lambda>x. x * tp_derivative tp t) d0)"
    by blast
  have inside: "?a \<le> t" "t \<le> ?b" using t by simp_all
  have params: "Path_paramAtTime p ?a \<le> Path_paramAtTime p t \<and> Path_paramAtTime p t \<le> Path_paramAtTime p ?b"
  proof (cases "timeParam p")
    case None
    then show ?thesis using inside by (simp add: Path_paramAtTime_def)
  next
    case (Some tp)
    with tps have "timeParam_sound tp" by simp
    then show ?thesis using inside Some by (simp add: Path_paramAtTime_def timeParam_sound_def)
  qed
  have raw: "list_all2 (\<lambda>x m. \<bar>x\<bar> \<le> m) d0 b"
    using shape params b d0 unfolding shape_bound_sound_def by blast
  show ?thesis
  proof (cases "timeParam p")
    case None
    then show ?thesis using raw vb_eq d_eq by simp
  next
    case (Some tp)
    with tps have "timeParam_sound tp" by simp
    then have "\<bar>tp_derivative tp t\<bar> \<le> tp_derivativeBound tp t0 t1"
      using t by (simp add: timeParam_sound_def)
    then show ?thesis using raw vb_eq d_eq Some by (simp add: scaled_bound)
  qed
qed

lemma parabola_bound_sound: "shape_bound_sound parabola"
  unfolding shape_bound_sound_def
  by (auto simp: parabola_fields)

lemma parabola_fast_bound_sound: "shape_bound_sound parabola_fast"
  using parabola_bound_sound by (simp add: shape_bound_sound_def parabola_fast_fields)

lemma tp_double_sound: "timeParam_sound tp_double"
  by (simp add: timeParam_sound_def tp_double_fields)

text \<open>
  A shape that keeps the bodies \<open>Path\<close> gives to \<open>impl_derivative\<close> and
  \<open>impl_velocityBound\<close> throws from both queries.
\<close>

lemma not_implemented:
  "Path_derivative ndebug (p\<lparr>impl_derivative := Path_impl_derivative\<rparr>) result t 1 =
     Inl (Exception ''not implemented'')"
  "t0 \<le> t1 \<Longrightarrow> int (length result) = outputDerivativeSize p \<Longrightarrow>
     Path_velocityBound ndebug (p\<lparr>impl_velocityBound := Path_impl_velocityBound\<rparr>) result t0 t1 =
       Inl (Exception ''not implemented'')"
  by (simp_all add: Path_derivative_def Path_velocityBound_def Path_impl_derivative_def
      Path_impl_velocityBound_def split: option.split)

text \<open>
  C1. For \<open>t0 \<le> t1\<close> and a result vector of the path's derivative size,
  \<open>velocityBound (result, t0, t1)\<close> is the concrete shape's \<open>impl_velocityBound\<close> on the
  parameters \<open>paramAtTime (max (t0, timeRange.first))\<close> and
  \<open>paramAtTime (min (t1, timeRange.second))\<close>, every component multiplied by
  \<open>derivativeBound (t0, t1)\<close> when a parameterization is attached (an exception of the shape
  passes through). The bound is sound: if the shape's bound covers the shape's derivative
  on a parameter interval, and the attached parameterization (if any) is non-decreasing
  with a \<open>derivativeBound\<close> that covers its derivative, then at every time \<open>t\<close> of
  \<open>[t0, t1]\<close> in the path's interval of definition each component of
  \<open>derivative (t, 1)\<close> is at most the bound's component in magnitude.
\<close>

theorem velocityBound_sound:
  "(t0 \<le> t1 \<and> int (length result) = outputDerivativeSize p \<longrightarrow>
      Path_velocityBound ndebug p result t0 t1 =
        (case impl_velocityBound p result
                (Path_paramAtTime p (max t0 (fst (timeRange p))))
                (Path_paramAtTime p (min t1 (snd (timeRange p)))) of
           Inl e \<Rightarrow> Inl e
         | Inr b \<Rightarrow>
             Inr (case timeParam p of
                    None \<Rightarrow> b
                  | Some tp \<Rightarrow> map (\<lambda>x. x * tp_derivativeBound tp t0 t1) b)))
   \<and> (shape_bound_sound p \<and> (\<forall>tp. timeParam p = Some tp \<longrightarrow> timeParam_sound tp)
        \<and> t0 \<le> t \<and> t \<le> t1 \<and> fst (timeRange p) \<le> t \<and> t \<le> snd (timeRange p)
        \<and> Path_velocityBound ndebug p result t0 t1 = Inr vb
        \<and> Path_derivative ndebug p result' t 1 = Inr d \<longrightarrow>
      list_all2 (\<lambda>x m. \<bar>x\<bar> \<le> m) d vb)"
proof (intro conjI impI)
  assume "t0 \<le> t1 \<and> int (length result) = outputDerivativeSize p"
  then show "Path_velocityBound ndebug p result t0 t1 =
        (case impl_velocityBound p result
                (Path_paramAtTime p (max t0 (fst (timeRange p))))
                (Path_paramAtTime p (min t1 (snd (timeRange p)))) of
           Inl e \<Rightarrow> Inl e
         | Inr b \<Rightarrow>
             Inr (case timeParam p of
                    None \<Rightarrow> b
                  | Some tp \<Rightarrow> map (\<lambda>x. x * tp_derivativeBound tp t0 t1) b))"
    by (simp add: Path_velocityBound_def std_max_eq std_min_eq times_assign_def
        split: sum.split option.split)
next
  assume "shape_bound_sound p \<and> (\<forall>tp. timeParam p = Some tp \<longrightarrow> timeParam_sound tp)
        \<and> t0 \<le> t \<and> t \<le> t1 \<and> fst (timeRange p) \<le> t \<and> t \<le> snd (timeRange p)
        \<and> Path_velocityBound ndebug p result t0 t1 = Inr vb
        \<and> Path_derivative ndebug p result' t 1 = Inr d"
  then show "list_all2 (\<lambda>x m. \<bar>x\<bar> \<le> m) d vb"
    using velocityBound_covers_derivative [of p t0 t t1 ndebug result vb result' d] by blast
qed

theorem velocityBound_sound_witness:
  "(0 :: real) \<le> 1 / 2 \<and> int (length [0 :: real]) = outputDerivativeSize parabola_fast
   \<and> shape_bound_sound parabola_fast \<and> timeParam parabola_fast = Some tp_double
   \<and> timeParam_sound tp_double
   \<and> Path_velocityBound False parabola_fast [0] 0 (1 / 2) = Inr [4]
   \<and> Path_derivative False parabola_fast [0] (1 / 4) 1 = Inr [2]
   \<and> list_all2 (\<lambda>x m. \<bar>x\<bar> \<le> m) [2 :: real] [4]"
  using velocityBound_sound [of 0 "1 / 2" "[0]" parabola_fast False "1 / 4" "[4]" "[0]" "[2]"]
    parabola_fast_bound_sound tp_double_sound
  by (simp add: parabola_fast_fields parabola_fields tp_double_fields Path_paramAtTime_def
      Path_derivative_def times_assign_def)

text \<open>
  C10. \<open>velocityBound\<close> checks \<open>result.size () == outputDerivativeSize ()\<close> and
  \<open>t0 <= t1\<close> by \<open>assert\<close> only. In a build that keeps assertions, a result vector of
  another size or a reversed interval stops the call at the assertion. The clamping
  leaves a reversed interval reversed: for \<open>t1 < t0\<close> the clamped upper end is below the
  clamped lower end. With \<open>NDEBUG\<close> nothing is checked and the shape's
  \<open>impl_velocityBound\<close> receives the clamped ends as they are, with the result vector as
  it is.
\<close>

theorem velocityBound_preconditions:
  "(int (length result) \<noteq> outputDerivativeSize p \<longrightarrow>
      Path_velocityBound False p result t0 t1 = Inl AssertionFailed)
   \<and> (t1 < t0 \<longrightarrow> Path_velocityBound False p result t0 t1 = Inl AssertionFailed)
   \<and> (t1 < t0 \<longrightarrow> std_min t1 (snd (timeRange p)) < std_max t0 (fst (timeRange p)))
   \<and> Path_velocityBound True p result t0 t1 =
       (case impl_velocityBound p result
               (Path_paramAtTime p (std_max t0 (fst (timeRange p))))
               (Path_paramAtTime p (std_min t1 (snd (timeRange p)))) of
          Inl e \<Rightarrow> Inl e
        | Inr b \<Rightarrow>
            Inr (case timeParam p of
                   None \<Rightarrow> b
                 | Some tp \<Rightarrow> map (\<lambda>x. x * tp_derivativeBound tp t0 t1) b))"
  by (simp add: Path_velocityBound_def std_max_def std_min_def times_assign_def
      split: sum.split option.split)

theorem velocityBound_preconditions_witness:
  "int (length [0 :: real, 0]) \<noteq> outputDerivativeSize parabola
   \<and> Path_velocityBound False parabola [0, 0] (1 / 4) (3 / 4) = Inl AssertionFailed
   \<and> (1 / 4 :: real) < 3 / 4
   \<and> Path_velocityBound False parabola [0] (3 / 4) (1 / 4) = Inl AssertionFailed
   \<and> std_min (1 / 4) (snd (timeRange parabola)) < std_max (3 / 4) (fst (timeRange parabola))
   \<and> Path_velocityBound True parabola [0] (3 / 4) (1 / 4) = Inr [3 / 2]
   \<and> Path_velocityBound True parabola [0, 0] (1 / 4) (3 / 4) = Inr [3 / 2]"
  using velocityBound_preconditions [of "[0, 0]" parabola "1 / 4" "3 / 4"]
    velocityBound_preconditions [of "[0]" parabola "3 / 4" "1 / 4"]
  by (simp add: parabola_fields Path_paramAtTime_def std_max_def std_min_def)

section \<open>Names the registry of numerical constraints does not know\<close>

lemma solver_step_not_defined:
  "\<not> adds name c \<Longrightarrow> not_defined s name \<Longrightarrow> not_defined (solver_step s c) name"
  by (cases c)
    (auto simp: not_defined_def ProblemSolver_comparisonType_types_def
      ProblemSolver_comparisonType_eq_def ProblemSolver_numericalConstraint_def
      ProblemSolver_addNumericalConstraint_def
      map_subscript_def Let_def split: option.splits if_splits)

lemma foldl_not_defined:
  "list_all (\<lambda>c. \<not> adds name c) calls \<Longrightarrow> not_defined s name \<Longrightarrow>
     not_defined (foldl solver_step s calls) name"
  by (induction calls arbitrary: s) (simp_all add: solver_step_not_defined)

lemma solver_after_not_defined:
  "list_all (\<lambda>c. \<not> adds name c) calls \<Longrightarrow> not_defined (solver_after calls) name"
  unfolding solver_after_def
  by (rule foldl_not_defined) (simp_all add: not_defined_def ProblemSolver_new_def)

lemma solver_step_no_comparison:
  "\<not> sets_comparison name c \<Longrightarrow> not_defined s name \<Longrightarrow> comparisonTypeMap s name = None \<Longrightarrow>
     comparisonTypeMap (solver_step s c) name = None"
  by (cases c)
    (auto simp: not_defined_def ProblemSolver_comparisonType_types_def
      ProblemSolver_comparisonType_eq_def ProblemSolver_numericalConstraint_def
      ProblemSolver_addNumericalConstraint_def
      map_subscript_def Let_def split: option.splits if_splits)

lemma sets_comparison_adds: "\<not> sets_comparison name c \<Longrightarrow> \<not> adds name c"
  by (cases c) auto

lemma foldl_no_comparison:
  "list_all (\<lambda>c. \<not> sets_comparison name c) calls \<Longrightarrow> not_defined s name \<Longrightarrow>
     comparisonTypeMap s name = None \<Longrightarrow>
     comparisonTypeMap (foldl solver_step s calls) name = None"
  by (induction calls arbitrary: s)
    (simp_all add: solver_step_no_comparison solver_step_not_defined sets_comparison_adds)

lemma solver_after_no_comparison:
  "list_all (\<lambda>c. \<not> sets_comparison name c) calls \<Longrightarrow> comparisonTypeMap (solver_after calls) name = None"
  unfolding solver_after_def
  by (rule foldl_no_comparison) (simp_all add: not_defined_def ProblemSolver_new_def)

lemma not_defined_behaviour:
  assumes "not_defined s name"
  shows "fst (ProblemSolver_comparisonType_types s name types) =
           Inl (LogicError (''Numerical constraint '' @ name @ '' not defined.''))"
    and "comparisonTypeMap (snd (ProblemSolver_comparisonType_types s name types)) = comparisonTypeMap s"
    and "fst (ProblemSolver_numericalConstraint s name) = None"
    and "NumericalConstraintMap (snd (ProblemSolver_numericalConstraint s name)) name = Some None"
  using assms
  by (auto simp: not_defined_def ProblemSolver_comparisonType_types_def
      ProblemSolver_numericalConstraint_def map_subscript_def Let_def split: option.splits)

lemma history_after:
  "NumericalConstraintMap (solver_after history) = [''gaze'' \<mapsto> Some 7, ''grasp'' \<mapsto> None]"
  "comparisonTypeMap (solver_after history) =
     [''gaze'' \<mapsto> Some (ComparisonTypes_create [3, 4]), ''grasp'' \<mapsto> Some ComparisonType_createDefault]"
  by (simp_all add: history_def solver_after_def ProblemSolver_new_def
      ProblemSolver_addNumericalConstraint_def ProblemSolver_numericalConstraint_def
      ProblemSolver_comparisonType_types_def ProblemSolver_comparisonType_eq_def
      map_subscript_def fun_upd_twist)

text \<open>
  C7, as the code has it. Take any history of calls on a new solver in which a name was
  never passed to \<open>addNumericalConstraint\<close>. Setting its comparison types with
  \<open>comparisonType (name, types)\<close> throws \<open>std::logic_error\<close> and stores no comparison type.
  Looking the constraint up with \<open>numericalConstraint (name)\<close> throws nothing: it returns a
  null pointer and leaves the name in the map with a null constraint. Reading its
  comparison type with \<open>comparisonType (name)\<close> throws nothing either: it returns what
  \<open>comparisonType (name, eq)\<close> stored under the name, and \<open>Equality::create ()\<close> when
  nothing was stored.
\<close>

theorem unknown_name:
  "list_all (\<lambda>c. \<not> adds name c) calls \<longrightarrow>
     fst (ProblemSolver_comparisonType_types (solver_after calls) name types) =
       Inl (LogicError (''Numerical constraint '' @ name @ '' not defined.''))
     \<and> comparisonTypeMap (snd (ProblemSolver_comparisonType_types (solver_after calls) name types)) =
         comparisonTypeMap (solver_after calls)
     \<and> fst (ProblemSolver_numericalConstraint (solver_after calls) name) = None
     \<and> NumericalConstraintMap (snd (ProblemSolver_numericalConstraint (solver_after calls) name)) name = Some None
     \<and> ProblemSolver_comparisonType (solver_after calls) name =
         (case comparisonTypeMap (solver_after calls) name of
            None \<Rightarrow> Some Equality_create
          | Some c \<Rightarrow> c)
     \<and> (list_all (\<lambda>c. \<not> sets_comparison name c) calls \<longrightarrow>
          ProblemSolver_comparisonType (solver_after calls) name = Some Equality_create)"
proof
  assume "list_all (\<lambda>c. \<not> adds name c) calls"
  then have nd: "not_defined (solver_after calls) name"
    by (rule solver_after_not_defined)
  show "fst (ProblemSolver_comparisonType_types (solver_after calls) name types) =
       Inl (LogicError (''Numerical constraint '' @ name @ '' not defined.''))
     \<and> comparisonTypeMap (snd (ProblemSolver_comparisonType_types (solver_after calls) name types)) =
         comparisonTypeMap (solver_after calls)
     \<and> fst (ProblemSolver_numericalConstraint (solver_after calls) name) = None
     \<and> NumericalConstraintMap (snd (ProblemSolver_numericalConstraint (solver_after calls) name)) name = Some None
     \<and> ProblemSolver_comparisonType (solver_after calls) name =
         (case comparisonTypeMap (solver_after calls) name of
            None \<Rightarrow> Some Equality_create
          | Some c \<Rightarrow> c)
     \<and> (list_all (\<lambda>c. \<not> sets_comparison name c) calls \<longrightarrow>
          ProblemSolver_comparisonType (solver_after calls) name = Some Equality_create)"
    using not_defined_behaviour [OF nd]
    by (simp add: ProblemSolver_comparisonType_def solver_after_no_comparison)
qed

theorem unknown_name_witness:
  "list_all (\<lambda>c. \<not> adds ''grasp'' c) history
   \<and> fst (ProblemSolver_comparisonType_types (solver_after history) ''grasp'' [2]) =
       Inl (LogicError ''Numerical constraint grasp not defined.'')
   \<and> fst (ProblemSolver_numericalConstraint (solver_after history) ''grasp'') = None
   \<and> ProblemSolver_comparisonType (solver_after history) ''grasp'' = Some ComparisonType_createDefault
   \<and> list_all (\<lambda>c. \<not> sets_comparison ''door'' c) history
   \<and> ProblemSolver_comparisonType (solver_after history) ''door'' = Some Equality_create"
  using unknown_name [of "''grasp''" history "[2]"] unknown_name [of "''door''" history "[2]"]
  by (simp add: history_def history_after [unfolded history_def])

text \<open>
  On a new solver, where no name was ever added, the lookup of a name answers with a null
  pointer and the read of its comparison type answers with \<open>Equality\<close>; after
  \<open>comparisonType (name, eq)\<close>, which checks nothing, the read answers with what was
  stored. None of the three calls reports the unknown name.
\<close>

theorem unknown_name_counterexample:
  "fst (ProblemSolver_numericalConstraint (ProblemSolver_new :: (nat, nat) ProblemSolver) ''grasp'') = None
   \<and> ProblemSolver_comparisonType (ProblemSolver_new :: (nat, nat) ProblemSolver) ''grasp'' = Some Equality_create
   \<and> ProblemSolver_comparisonType
        (ProblemSolver_comparisonType_eq (ProblemSolver_new :: (nat, nat) ProblemSolver) ''grasp''
           (Some (ComparisonTypes_create [1])))
        ''grasp'' = Some (ComparisonTypes_create [1])"
  by (simp add: ProblemSolver_new_def ProblemSolver_numericalConstraint_def map_subscript_def
      ProblemSolver_comparisonType_def ProblemSolver_comparisonType_eq_def)

section \<open>Extraction over a reversed interval, copy with constraints\<close>

text \<open>
  C5. For \<open>a < b\<close>, \<open>extract ([b, a])\<close> is \<open>extract ([a, b])\<close> followed by \<open>reverse\<close>; a
  projection error of the forward extraction is the error of both.
\<close>

theorem extract_reversed:
  "a < b \<longrightarrow>
     Path_extract subpath reverse p (b, a) =
       (case Path_extract subpath reverse p (a, b) of
          Inl e \<Rightarrow> Inl e
        | Inr q \<Rightarrow> reverse q)"
  by (simp add: Path_extract_def)

theorem extract_reversed_witness:
  "(1 / 4 :: real) < 3 / 4
   \<and> Path_extract subpath_window reverse_flip parabola (3 / 4, 1 / 4) =
       (case Path_extract subpath_window reverse_flip parabola (1 / 4, 3 / 4) of
          Inl e \<Rightarrow> Inl e
        | Inr q \<Rightarrow> reverse_flip q)
   \<and> map_sum id (\<lambda>q. Path_call_success q [0] (1 / 4))
        (Path_extract subpath_window reverse_flip parabola (1 / 4, 3 / 4)) = Inr ([1 / 16], True)
   \<and> map_sum id (\<lambda>q. Path_call_success q [0] (1 / 4))
        (Path_extract subpath_window reverse_flip parabola (3 / 4, 1 / 4)) = Inr ([9 / 16], True)"
  using extract_reversed [of "1 / 4" "3 / 4" subpath_window reverse_flip parabola]
  by (simp add: Path_extract_def subpath_window_def reverse_flip_def Path_set_timeRange_def
      Path_call_success_def Path_configAtParam_def Path_paramAtTime_def parabola_def
      power2_eq_square)

text \<open>
  C6. \<open>copy (constraints)\<close> on a path that already has constraints fails, and nothing is
  overwritten; on a path without constraints it gives the path with the same members and
  the same shape, carrying the given constraints.
\<close>

theorem copy_constraints_precondition:
  "(constraints p = Some c \<longrightarrow> Path_copy_constraints p cs = Inl PreconditionViolated)
   \<and> (constraints p = None \<longrightarrow> Path_copy_constraints p cs = Inr (p\<lparr>constraints := cs\<rparr>))"
  by (simp add: Path_copy_constraints_def)

theorem copy_constraints_precondition_witness:
  "constraints (Path_set_constraints parabola (Some cs_clip)) = Some cs_clip
   \<and> Path_copy_constraints (Path_set_constraints parabola (Some cs_clip)) (Some cs_diverge) =
       Inl PreconditionViolated
   \<and> constraints parabola = None
   \<and> Path_copy_constraints parabola (Some cs_diverge) = Inr (Path_set_constraints parabola (Some cs_diverge))"
  using copy_constraints_precondition [of "Path_set_constraints parabola (Some cs_clip)" cs_clip "Some cs_diverge"]
    copy_constraints_precondition [of parabola cs_clip "Some cs_diverge"]
  by (simp add: Path_set_constraints_def parabola_fields)

section \<open>Right multiplication by a constant transform\<close>

lemma transformVector_times:
  assumes "Quaternion_squaredNorm a = 1" and "Quaternion_squaredNorm b = 1"
  shows "Quaternion_transformVector (Quaternion_times a b) v =
         Quaternion_transformVector a (Quaternion_transformVector b v)"
proof -
  obtain aw ax ay az where a: "a = Quaternion aw ax ay az" by (cases a)
  obtain bw bx by' bz where b: "b = Quaternion bw bx by' bz" by (cases b)
  obtain vx vy vz where v: "v = (vx, vy, vz)" by (cases v)
  from assms have na: "ax * ax + ay * ay + az * az + aw * aw = 1"
    and nb: "bx * bx + by' * by' + bz * bz + bw * bw = 1"
    by (simp_all add: a b)
  show ?thesis
    unfolding a b v
    apply (simp add: Quaternion_transformVector_def Let_def)
    using na nb
    apply (intro conjI)
    apply algebra+
    done
qed

lemma transformVector_add:
  "Quaternion_transformVector q (vec3_add u v) =
     vec3_add (Quaternion_transformVector q u) (Quaternion_transformVector q v)"
  by (cases q; cases u; cases v) (simp add: Quaternion_transformVector_def Let_def algebra_simps)

lemma squaredNorm_times:
  "Quaternion_squaredNorm (Quaternion_times a b) = Quaternion_squaredNorm a * Quaternion_squaredNorm b"
  by (cases a; cases b) (simp add: algebra_simps)

lemma vec3_add_assoc: "vec3_add (vec3_add a b) c = vec3_add a (vec3_add b c)"
  by (cases a; cases b; cases c) simp

lemma written_vector:
  "length y = 7 \<Longrightarrow>
     set_tail (set_head y (vec3_coeffs t)) (Quaternion_coeffs q) = vec3_coeffs t @ Quaternion_coeffs q"
  by (cases t; cases q) (simp add: set_head_def set_tail_def)

lemma SE3_act_written:
  "SE3_act (vec3_coeffs t @ Quaternion_coeffs q) v = vec3_add (Quaternion_transformVector q v) t"
  by (cases t; cases q) (simp add: SE3_act_def)

lemma right_multiplication:
  assumes unit_x: "Quaternion_squaredNorm (Quaternion x6 x3 x4 x5) = 1"
    and unit_M: "Quaternion_squaredNorm (oQi f) = 1"
    and rot: "\<forall>v. Quaternion_transformVector (oQi f) v = matrix3_times_vec (rotation (oMi f)) v"
  shows "SE3_act
           (vec3_coeffs (vec3_add (Quaternion_transformVector (Quaternion x6 x3 x4 x5) (translation (oMi f))) (x0, x1, x2))
            @ Quaternion_coeffs (Quaternion_times (Quaternion x6 x3 x4 x5) (oQi f))) v
         = SE3_act [x0, x1, x2, x3, x4, x5, x6] (Transform3f_act (oMi f) v)"
proof -
  let ?q = "Quaternion x6 x3 x4 x5"
  have "SE3_act [x0, x1, x2, x3, x4, x5, x6] (Transform3f_act (oMi f) v) =
        vec3_add (Quaternion_transformVector ?q (vec3_add (Quaternion_transformVector (oQi f) v) (translation (oMi f)))) (x0, x1, x2)"
    by (simp add: SE3_act_def Transform3f_act_def rot [rule_format])
  also have "\<dots> = vec3_add (Quaternion_transformVector (Quaternion_times ?q (oQi f)) v)
                  (vec3_add (Quaternion_transformVector ?q (translation (oMi f))) (x0, x1, x2))"
    by (simp add: transformVector_add transformVector_times [OF unit_x unit_M] vec3_add_assoc)
  finally show ?thesis
    by (simp add: SE3_act_written)
qed


lemma impl_compute_value:
  assumes len: "length y = 7"
    and zero: "lib_minus lib
                 (vec3_coeffs (vec3_add (Quaternion_transformVector (Quaternion x6 x3 x4 x5) (translation (oMi f))) (x0, x1, x2))
                  @ Quaternion_coeffs (Quaternion_times (Quaternion x6 x3 x4 x5) (oQi f)))
                 (lib_plus lib [x0, x1, x2, x3, x4, x5, x6] (logM f)) = [0, 0, 0, 0, 0, 0]"
  shows "TimesFrameFunction_impl_compute ndebug lib f y [x0, x1, x2, x3, x4, x5, x6] =
           Inr (vec3_coeffs (vec3_add (Quaternion_transformVector (Quaternion x6 x3 x4 x5) (translation (oMi f))) (x0, x1, x2))
                @ Quaternion_coeffs (Quaternion_times (Quaternion x6 x3 x4 x5) (oQi f)))"
  by (simp add: TimesFrameFunction_impl_compute_def Let_def written_vector [OF len] zero squaredNorm_def)

lemma written_length:
  "length (vec3_coeffs t @ Quaternion_coeffs q) = 7"
  by (cases t; cases q) simp

lemma jacobian_coeff:
  "i < 6 \<Longrightarrow> j < 6 \<Longrightarrow>
     TimesFrameFunction_impl_jacobian f J x i j =
       (if i < 3
        then if j < 3
             then matrix3_coeff (matrix3_transpose (rotation (oMi f))) i j
             else matrix3_coeff
                    (matrix3_times (matrix3_uminus (matrix3_transpose (rotation (oMi f)))) (skew (translation (oMi f))))
                    i (j - 3)
        else if j < 3 then 0
             else matrix3_coeff (matrix3_transpose (rotation (oMi f))) (i - 3) (j - 3))"
  by (auto simp: TimesFrameFunction_impl_jacobian_def set_block3_def Let_def matrix3_Zero_def)

lemma shift_library_fields:
  "lib_log6 shift_library M = vec3_coeffs (translation M) @ [0, 0, 0]"
  "lib_Quaternion shift_library R = Quaternion 1 0 0 0"
  "lib_plus shift_library [x0, x1, x2, x3, x4, x5, x6] [a, b, c, d, e, g] =
     vec3_coeffs (vec3_add (Quaternion_transformVector (Quaternion x6 x3 x4 x5) (a, b, c)) (x0, x1, x2))
     @ [x3, x4, x5, x6]"
  "lib_minus shift_library [a0, a1, a2, a3, a4, a5, a6] [b0, b1, b2, b3, b4, b5, b6] =
     [a0 - b0, a1 - b1, a2 - b2, 0, 0, 0]"
  by (simp_all add: shift_library_def)

lemma list7:
  assumes "length a = 7"
  obtains a0 a1 a2 a3 a4 a5 a6 where "a = [a0, a1, a2, a3, a4, a5, a6]"
  using assms by (auto simp: eval_nat_numeral length_Suc_conv)

lemma shift_library_minus: "minus_of_equal_is_zero shift_library"
  unfolding minus_of_equal_is_zero_def
proof (intro allI impI)
  fix a b :: vector_t
  assume h: "length a = 7 \<and> length b = 7 \<and> (\<forall>v. SE3_act a v = SE3_act b v)"
  then obtain a0 a1 a2 a3 a4 a5 a6 where a: "a = [a0, a1, a2, a3, a4, a5, a6]"
    using list7 [of a] by blast
  from h obtain b0 b1 b2 b3 b4 b5 b6 where b: "b = [b0, b1, b2, b3, b4, b5, b6]"
    using list7 [of b] by blast
  from h have "SE3_act a (0, 0, 0) = SE3_act b (0, 0, 0)" by blast
  then have "a0 = b0 \<and> a1 = b1 \<and> a2 = b2"
    by (simp add: a b SE3_act_def Quaternion_transformVector_def)
  then show "lib_minus shift_library a b = [0, 0, 0, 0, 0, 0]"
    by (simp add: a b shift_library_fields)
qed

lemma shift_x_represented: "Quaternion_represents (lib_Quaternion shift_library (rotation shift_x)) (rotation shift_x)"
  by (auto simp: Quaternion_represents_def shift_library_fields shift_x_def Quaternion_transformVector_def)

lemma shift_x_plus: "plus_log_is_right_multiplication shift_library shift_x [1, 2, 3, 0, 0, 1, 0]"
  by (auto simp: plus_log_is_right_multiplication_def shift_library_fields shift_x_def SE3_act_def
      Transform3f_act_def Quaternion_transformVector_def)

text \<open>
  C8. Let the last four components of \<open>x\<close> be a unit quaternion, and let the libraries
  keep their contracts: the quaternion of \<open>M\<close> represents its rotation, \<open>x + log6 (M)\<close> stands
  for the transform of \<open>x\<close> after that of \<open>M\<close>, and the difference of two configurations of
  the same transform is zero. Then \<open>impl_compute\<close> passes its assertion and leaves in \<open>y\<close>
  the translation \<open>q t + p\<close> and the quaternion \<open>q * oQi\<close>, a configuration that stands for
  the product \<open>SE3 (x) M\<close> (it sends every point where \<open>x\<close> sends its image under \<open>M\<close>) and
  for the same transform as \<open>x + log6 (M)\<close>. \<open>impl_jacobian\<close> does not read the
  configuration, and every entry of the 6 by 6 matrix it leaves is the same whatever the
  configuration and whatever the matrix held before.
\<close>

theorem TimesFrameFunction_right_multiplication:
  "(Quaternion_squaredNorm (Quaternion x6 x3 x4 x5) = 1 \<and> length y = 7
    \<and> Quaternion_represents (lib_Quaternion lib (rotation M)) (rotation M)
    \<and> plus_log_is_right_multiplication lib M [x0, x1, x2, x3, x4, x5, x6]
    \<and> minus_of_equal_is_zero lib \<longrightarrow>
      (\<exists>r. TimesFrameFunction_impl_compute ndebug lib (TimesFrameFunction_new lib M) y [x0, x1, x2, x3, x4, x5, x6] = Inr r
         \<and> r = vec3_coeffs (vec3_add (Quaternion_transformVector (Quaternion x6 x3 x4 x5) (translation M)) (x0, x1, x2))
               @ Quaternion_coeffs (Quaternion_times (Quaternion x6 x3 x4 x5) (lib_Quaternion lib (rotation M)))
         \<and> (\<forall>v. SE3_act r v = SE3_act [x0, x1, x2, x3, x4, x5, x6] (Transform3f_act M v))
         \<and> (\<forall>v. SE3_act r v = SE3_act (lib_plus lib [x0, x1, x2, x3, x4, x5, x6] (lib_log6 lib M)) v)))
   \<and> TimesFrameFunction_impl_jacobian f J x = TimesFrameFunction_impl_jacobian f J x'
   \<and> (i < 6 \<and> j < 6 \<longrightarrow>
        TimesFrameFunction_impl_jacobian f J x i j = TimesFrameFunction_impl_jacobian f J' x' i j)"
proof (intro conjI impI)
  assume h: "Quaternion_squaredNorm (Quaternion x6 x3 x4 x5) = 1 \<and> length y = 7
    \<and> Quaternion_represents (lib_Quaternion lib (rotation M)) (rotation M)
    \<and> plus_log_is_right_multiplication lib M [x0, x1, x2, x3, x4, x5, x6]
    \<and> minus_of_equal_is_zero lib"
  let ?f = "TimesFrameFunction_new lib M"
  let ?x = "[x0, x1, x2, x3, x4, x5, x6]"
  let ?r = "vec3_coeffs (vec3_add (Quaternion_transformVector (Quaternion x6 x3 x4 x5) (translation M)) (x0, x1, x2))
            @ Quaternion_coeffs (Quaternion_times (Quaternion x6 x3 x4 x5) (lib_Quaternion lib (rotation M)))"
  have f: "oMi ?f = M" "logM ?f = lib_log6 lib M" "oQi ?f = lib_Quaternion lib (rotation M)"
    by (simp_all add: TimesFrameFunction_new_def)
  from h have rep: "Quaternion_squaredNorm (oQi ?f) = 1"
    "\<forall>v. Quaternion_transformVector (oQi ?f) v = matrix3_times_vec (rotation (oMi ?f)) v"
    by (simp_all add: f Quaternion_represents_def)
  from h have unit_x: "Quaternion_squaredNorm (Quaternion x6 x3 x4 x5) = 1" by simp
  have product: "SE3_act ?r v = SE3_act ?x (Transform3f_act M v)" for v
    using right_multiplication [OF unit_x rep, of x0 x1 x2 v] by (simp add: f)
  from h have plus: "length (lib_plus lib ?x (lib_log6 lib M)) = 7"
    "\<forall>v. SE3_act (lib_plus lib ?x (lib_log6 lib M)) v = SE3_act ?x (Transform3f_act M v)"
    by (simp_all add: plus_log_is_right_multiplication_def)
  have sum: "SE3_act ?r v = SE3_act (lib_plus lib ?x (lib_log6 lib M)) v" for v
    by (simp add: product plus(2))
  from h have "minus_of_equal_is_zero lib" by simp
  then have zero: "lib_minus lib ?r (lib_plus lib ?x (lib_log6 lib M)) = [0, 0, 0, 0, 0, 0]"
    unfolding minus_of_equal_is_zero_def using sum plus(1) written_length by blast
  from h have len: "length y = 7" by simp
  have computed: "TimesFrameFunction_impl_compute ndebug lib ?f y ?x = Inr ?r"
    using impl_compute_value [of y lib x6 x3 x4 x5 ?f x0 x1 x2 ndebug] len zero by (simp add: f)
  show "\<exists>r. TimesFrameFunction_impl_compute ndebug lib ?f y ?x = Inr r \<and> r = ?r
         \<and> (\<forall>v. SE3_act r v = SE3_act ?x (Transform3f_act M v))
         \<and> (\<forall>v. SE3_act r v = SE3_act (lib_plus lib ?x (lib_log6 lib M)) v)"
    using computed product sum by simp
next
  show "TimesFrameFunction_impl_jacobian f J x = TimesFrameFunction_impl_jacobian f J x'"
    by (simp add: TimesFrameFunction_impl_jacobian_def)
next
  assume "i < 6 \<and> j < 6"
  then show "TimesFrameFunction_impl_jacobian f J x i j = TimesFrameFunction_impl_jacobian f J' x' i j"
    by (simp add: jacobian_coeff)
qed


theorem TimesFrameFunction_right_multiplication_witness:
  "Quaternion_squaredNorm (Quaternion 0 0 0 1) = 1 \<and> length [0, 0, 0, 0, 0, 0, 0 :: value_type] = 7
   \<and> Quaternion_represents (lib_Quaternion shift_library (rotation shift_x)) (rotation shift_x)
   \<and> plus_log_is_right_multiplication shift_library shift_x [1, 2, 3, 0, 0, 1, 0]
   \<and> minus_of_equal_is_zero shift_library
   \<and> TimesFrameFunction_impl_compute False shift_library (TimesFrameFunction_new shift_library shift_x)
        [0, 0, 0, 0, 0, 0, 0] [1, 2, 3, 0, 0, 1, 0] = Inr [0, 2, 3, 0, 0, 1, 0]
   \<and> SE3_act [0, 2, 3, 0, 0, 1, 0] (5, 7, 9) = SE3_act [1, 2, 3, 0, 0, 1, 0] (Transform3f_act shift_x (5, 7, 9))
   \<and> (2 :: nat) < 6 \<and> (4 :: nat) < 6
   \<and> TimesFrameFunction_impl_jacobian (TimesFrameFunction_new shift_library shift_x) (\<lambda>i j. 8) [1, 2, 3, 0, 0, 1, 0] 2 4
       = TimesFrameFunction_impl_jacobian (TimesFrameFunction_new shift_library shift_x) (\<lambda>i j. 0) [0, 0, 0, 0, 0, 0, 1] 2 4
   \<and> TimesFrameFunction_impl_jacobian (TimesFrameFunction_new shift_library shift_x) (\<lambda>i j. 8) [1, 2, 3, 0, 0, 1, 0] 2 4 = - 1"
  using TimesFrameFunction_right_multiplication
      [of 0 0 0 1 "[0, 0, 0, 0, 0, 0, 0]" shift_library shift_x 1 2 3 False
        "TimesFrameFunction_new shift_library shift_x" "\<lambda>i j. 8" "[1, 2, 3, 0, 0, 1, 0]" "[0, 0, 0, 0, 0, 0, 1]"
        2 4 "\<lambda>i j. 0"]
    shift_x_represented shift_x_plus shift_library_minus
  by (simp add: jacobian_coeff TimesFrameFunction_new_def shift_x_def shift_library_fields
      Quaternion_transformVector_def)

end
